theory Spec2Isabelle
  imports Complex_Main "HOL-Library.Multiset"
begin

section \<open>Figure generation for the survey manuscript: layout arithmetic\<close>

text \<open>
  The development embeds \<^verbatim>\<open>generate_figures_modular.py\<close>: the weighted averages of
  \<^verbatim>\<open>calculate_interest_career_stats\<close>, the diverging bar chart of
  \<^verbatim>\<open>create_figure1\<close>, the dumbbell plot of \<^verbatim>\<open>create_figure2\<close> and the two barrier
  charts \<^verbatim>\<open>create_figure3\<close> and \<^verbatim>\<open>create_figure3_red\<close>.

  Python floats and the entries of numpy arrays are modelled as real numbers: a finite
  float64 stands for the real it denotes and rounding is not modelled. The literal arrays
  of the source are parameters of the embedded functions; the literals themselves are kept
  as constants, and the theorems are instantiated on them. All arrays that one function
  combines entry by entry have the length of its category list in the source; numpy
  refuses operands of different shapes, so the entrywise operations are only meant for
  lists of equal length and the theorems assume it.
\<close>

subsection \<open>Configuration section of the script\<close>

definition OUTPUT_DIR :: string where
  "OUTPUT_DIR = ''/home/david/projects/asp_curriculum/''"

definition COLOR_POSITIVE :: string where "COLOR_POSITIVE = ''#2C7BB6''"
definition COLOR_NEGATIVE :: string where "COLOR_NEGATIVE = ''#D7191C''"
definition COLOR_NEUTRAL :: string where "COLOR_NEUTRAL = ''#FFFFBF''"
definition COLOR_POSITIVE_LIGHT :: string where "COLOR_POSITIVE_LIGHT = ''#ABD9E9''"
definition COLOR_NEGATIVE_LIGHT :: string where "COLOR_NEGATIVE_LIGHT = ''#FDAE61''"
definition COLOR_GRAY :: string where "COLOR_GRAY = ''#666666''"

definition TOTAL_PROGRAMS :: int where "TOTAL_PROGRAMS = 27"

subsection \<open>Python and numpy arithmetic\<close>

datatype error = ZeroDivisionError

text \<open>Python's \<^verbatim>\<open>a / b\<close> on numbers raises \<^verbatim>\<open>ZeroDivisionError\<close> when \<^verbatim>\<open>b\<close> is zero.\<close>

definition py_truediv :: "real \<Rightarrow> real \<Rightarrow> error + real" where
  "py_truediv a b = (if b = 0 then Inl ZeroDivisionError else Inr (a / b))"

text \<open>Entrywise operations on arrays, and \<^verbatim>\<open>np.arange(n)\<close>.\<close>

definition np_arange :: "nat \<Rightarrow> real list" where
  "np_arange n = map real [0..<n]"

definition np_neg :: "real list \<Rightarrow> real list" where
  "np_neg xs = map uminus xs"

definition np_add :: "real list \<Rightarrow> real list \<Rightarrow> real list" where
  "np_add xs ys = map2 (+) xs ys"

definition np_sub :: "real list \<Rightarrow> real list \<Rightarrow> real list" where
  "np_sub xs ys = map2 (-) xs ys"

definition np_abs :: "real list \<Rightarrow> real list" where
  "np_abs xs = map abs xs"

definition np_div_scalar :: "real list \<Rightarrow> real \<Rightarrow> real list" where
  "np_div_scalar xs k = map (\<lambda>x. x / k) xs"

text \<open>
  \<^verbatim>\<open>np.argsort(a)\<close>: the indices of \<^verbatim>\<open>a\<close> in ascending order of their entries. Its
  default kind is not stable: numpy leaves the order of the indices of equal entries open,
  and it depends on the build. \<open>np_argsort\<close> is one result it may give, that of insertion
  sort (\<^const>\<open>sort_key\<close>), which numpy's non-vectorised sort runs on arrays as short as
  those of this script.
\<close>

definition np_argsort :: "real list \<Rightarrow> nat list" where
  "np_argsort a = sort_key (\<lambda>i. a ! i) [0..<length a]"

text \<open>Indexing by an index array, \<^verbatim>\<open>a[idx]\<close> and \<^verbatim>\<open>[a[i] for i in idx]\<close>.\<close>

definition np_take :: "'a list \<Rightarrow> nat list \<Rightarrow> 'a list" where
  "np_take a idx = map (\<lambda>i. a ! i) idx"

text \<open>
  What every result \<open>idx\<close> of \<^verbatim>\<open>np.argsort(a)\<close> satisfies, whatever the kind of sort: it
  lists each index of \<open>a\<close> once, and the entries taken in that order ascend.
\<close>

definition is_argsort :: "real list \<Rightarrow> nat list \<Rightarrow> bool" where
  "is_argsort a idx = (sort idx = [0..<length a] \<and> sorted (np_take a idx))"

subsection \<open>What a figure is made of\<close>

text \<open>
  The calls on an axes object that carry data: \<^verbatim>\<open>barh(y, width, height, left, color)\<close>,
  \<^verbatim>\<open>plot(xs, ys, color)\<close>, \<^verbatim>\<open>text(x, y, f'{value:.kf}%')\<close> with the number that is
  formatted and the number \<open>k\<close> of decimals, and \<^verbatim>\<open>set_yticklabels\<close>. Titles, captions,
  legends, grids and axis limits are fixed decoration and are left out.
\<close>

datatype primitive =
    Barh (bar_y: "real list") (bar_width: "real list") (bar_height: real)
         (bar_left: "real list") (bar_color: string)
  | Plot (plot_x: "real list") (plot_y: "real list") (plot_color: string)
  | Text (text_x: real) (text_y: real) (text_value: real) (text_decimals: nat)
  | YTickLabels (tick_labels: "string list")

text \<open>
  pyplot keeps the figures it has created (the script never closes one); the newest is
  the current figure, which \<^verbatim>\<open>plt.savefig\<close> writes. An axes object belongs to the figure
  it was created in, here identified by the index of that figure.
\<close>

record pyplot =
  figures :: "primitive list list"
  files :: "(string \<times> primitive list) list"

definition plt_figure :: "pyplot \<Rightarrow> pyplot" where
  "plt_figure s = s\<lparr>figures := figures s @ [[]]\<rparr>"

definition ax_draw :: "nat \<Rightarrow> primitive \<Rightarrow> pyplot \<Rightarrow> pyplot" where
  "ax_draw h p s = s\<lparr>figures := (figures s)[h := figures s ! h @ [p]]\<rparr>"

definition plt_savefig :: "string \<Rightarrow> pyplot \<Rightarrow> pyplot" where
  "plt_savefig path s = s\<lparr>files := files s @ [(path, last (figures s))]\<rparr>"

subsection \<open>Weighted averages (\<^verbatim>\<open>calculate_interest_career_stats\<close>)\<close>

text \<open>
  The expression \<^verbatim>\<open>sum([m * c for m, c in zip(midpoints, counts)]) / TOTAL_PROGRAMS\<close>,
  with the two lists and the denominator as parameters. \<^verbatim>\<open>zip\<close> stops at the end of the
  shorter list.
\<close>

definition weighted_midpoint_average :: "real list \<Rightarrow> int list \<Rightarrow> int \<Rightarrow> error + real" where
  "weighted_midpoint_average midpoints counts sample_size =
     py_truediv (sum_list (map (\<lambda>(m, c). m * real_of_int c) (zip midpoints counts)))
                (real_of_int sample_size)"

definition midpoints :: "real list" where
  "midpoints = [12.5, 37.5, 62.5, 87.5]"

definition interest_counts :: "int list" where
  "interest_counts = [11, 10, 5, 1]"

definition career_counts :: "int list" where
  "career_counts = [20, 4, 3, 0]"

text \<open>
  \<^verbatim>\<open>calculate_interest_career_stats\<close> reads the module-level \<^verbatim>\<open>TOTAL_PROGRAMS\<close>; the
  value of that setting is the parameter \<open>total_programs\<close>. The first division that fails
  ends the function, as the exception does.
\<close>

definition calculate_interest_career_stats :: "int \<Rightarrow> error + real \<times> real" where
  "calculate_interest_career_stats total_programs =
     (case weighted_midpoint_average midpoints interest_counts total_programs of
        Inl e \<Rightarrow> Inl e
      | Inr avg_interest \<Rightarrow>
          (case weighted_midpoint_average midpoints career_counts total_programs of
             Inl e \<Rightarrow> Inl e
           | Inr avg_career \<Rightarrow> Inr (avg_interest, avg_career)))"

subsection \<open>Figure 1, part B: the diverging satisfaction chart\<close>

text \<open>
  Conversion of counts to percentages, \<^verbatim>\<open>counts / TOTAL_PROGRAMS * 100\<close> on an array.
  \<^verbatim>\<open>create_figure1\<close> reaches these lines only after
  \<^verbatim>\<open>calculate_interest_career_stats\<close> has divided by the same setting without raising,
  so the denominator is not zero here.
\<close>

definition percentage_of_total :: "int list \<Rightarrow> int \<Rightarrow> real list" where
  "percentage_of_total counts n = map (\<lambda>c. real_of_int c / real_of_int n * 100) counts"

text \<open>
  The five \<^verbatim>\<open>barh\<close> calls. The parameters are the percentage arrays in the order the
  source declares them; the result lists the bars in the order they are drawn: very
  dissatisfied, somewhat dissatisfied, neither, somewhat satisfied, very satisfied.
\<close>

definition satisfaction_bars ::
  "string list \<Rightarrow> real list \<Rightarrow> real list \<Rightarrow> real list \<Rightarrow> real list \<Rightarrow> real list
     \<Rightarrow> primitive list" where
  "satisfaction_bars categories very_satisfied_pct somewhat_satisfied_pct neither_pct
       somewhat_dissatisfied_pct very_dissatisfied_pct =
     (let y_pos = np_arange (length categories);
          bar_height = 0.6;
          pos_somewhat = somewhat_satisfied_pct;
          pos_very = very_satisfied_pct;
          neutral_half = np_div_scalar neither_pct 2;
          dissatisfied_total = np_add somewhat_dissatisfied_pct very_dissatisfied_pct;
          very_dissatisfied_start = np_neg (np_add neutral_half dissatisfied_total);
          somewhat_dissatisfied_start = np_add very_dissatisfied_start very_dissatisfied_pct
      in [Barh y_pos very_dissatisfied_pct bar_height very_dissatisfied_start COLOR_NEGATIVE,
          Barh y_pos somewhat_dissatisfied_pct bar_height somewhat_dissatisfied_start
            COLOR_NEGATIVE_LIGHT,
          Barh y_pos neither_pct bar_height (np_neg neutral_half) COLOR_NEUTRAL,
          Barh y_pos pos_somewhat bar_height neutral_half COLOR_POSITIVE_LIGHT,
          Barh y_pos pos_very bar_height (np_add neutral_half pos_somewhat) COLOR_POSITIVE])"

text \<open>The body of the labelling loop for category \<open>i\<close>, and the loop.\<close>

definition percentage_labels_at ::
  "real list \<Rightarrow> real list \<Rightarrow> real list \<Rightarrow> real list \<Rightarrow> real list \<Rightarrow> nat
     \<Rightarrow> primitive list" where
  "percentage_labels_at very_satisfied_pct somewhat_satisfied_pct neither_pct
       somewhat_dissatisfied_pct very_dissatisfied_pct i =
     (let pos_somewhat = somewhat_satisfied_pct;
          pos_very = very_satisfied_pct;
          neutral_half_i = neither_pct ! i / 2;
          dissatisfied_total_i = somewhat_dissatisfied_pct ! i + very_dissatisfied_pct ! i;
          satisfied_total_i = pos_somewhat ! i + pos_very ! i
      in (if dissatisfied_total_i > 5
          then (let dissatisfied_left = - (neutral_half_i + dissatisfied_total_i);
                    dissatisfied_center = dissatisfied_left + dissatisfied_total_i / 2
                in [Text dissatisfied_center (real i) dissatisfied_total_i 0])
          else [])
       @ (if neither_pct ! i > 5 then [Text 0 (real i) (neither_pct ! i) 0] else [])
       @ (if satisfied_total_i > 5
          then (let satisfied_center = neutral_half_i + satisfied_total_i / 2
                in [Text satisfied_center (real i) satisfied_total_i 0])
          else []))"

definition percentage_labels ::
  "string list \<Rightarrow> real list \<Rightarrow> real list \<Rightarrow> real list \<Rightarrow> real list \<Rightarrow> real list
     \<Rightarrow> primitive list" where
  "percentage_labels categories very_satisfied_pct somewhat_satisfied_pct neither_pct
       somewhat_dissatisfied_pct very_dissatisfied_pct =
     concat (map (percentage_labels_at very_satisfied_pct somewhat_satisfied_pct neither_pct
                    somewhat_dissatisfied_pct very_dissatisfied_pct)
                 [0..<length categories])"

text \<open>The literal data of the chart.\<close>

definition categories :: "string list" where
  "categories = [''General education/'' @ [CHR 0x0A] @ ''background knowledge'',
                 ''Ability to use AS in'' @ [CHR 0x0A] @ ''clinical practice'',
                 ''Ability to assume a'' @ [CHR 0x0A] @ ''leadership role in AS'']"

definition very_satisfied :: "int list" where "very_satisfied = [9, 10, 3]"
definition somewhat_satisfied :: "int list" where "somewhat_satisfied = [14, 15, 12]"
definition neither :: "int list" where "neither = [1, 0, 8]"
definition somewhat_dissatisfied :: "int list" where "somewhat_dissatisfied = [2, 2, 3]"
definition very_dissatisfied :: "int list" where "very_dissatisfied = [1, 0, 1]"

text \<open>
  \<^verbatim>\<open>create_figure1\<close>, with the setting \<^verbatim>\<open>TOTAL_PROGRAMS\<close> as the parameter
  \<open>total_programs\<close>: a new figure, the call of \<^verbatim>\<open>calculate_interest_career_stats\<close> at
  line 94, whose exception ends the function, then the three numbers of the career funnel
  (part A), the percentages, bars, tick labels and percentage labels of part B, and the
  file.
\<close>

definition figure1_primitives ::
  "int \<Rightarrow> real \<Rightarrow> real \<Rightarrow> string list \<Rightarrow> int list \<Rightarrow> int list \<Rightarrow> int list \<Rightarrow> int list
     \<Rightarrow> int list \<Rightarrow> primitive list" where
  "figure1_primitives total_programs avg_interest avg_career cats vs ss nt sd vd =
     (let gap_size = avg_interest - avg_career;
          very_satisfied_pct = percentage_of_total vs total_programs;
          somewhat_satisfied_pct = percentage_of_total ss total_programs;
          neither_pct = percentage_of_total nt total_programs;
          somewhat_dissatisfied_pct = percentage_of_total sd total_programs;
          very_dissatisfied_pct = percentage_of_total vd total_programs
      in [Text 5 7.2 avg_interest 0, Text 5 2.7 avg_career 0, Text 9 4.5 gap_size 0]
       @ satisfaction_bars cats very_satisfied_pct somewhat_satisfied_pct neither_pct
           somewhat_dissatisfied_pct very_dissatisfied_pct
       @ [YTickLabels cats]
       @ percentage_labels cats very_satisfied_pct somewhat_satisfied_pct neither_pct
           somewhat_dissatisfied_pct very_dissatisfied_pct)"

definition create_figure1 ::
  "int \<Rightarrow> string list \<Rightarrow> int list \<Rightarrow> int list \<Rightarrow> int list \<Rightarrow> int list \<Rightarrow> int list
     \<Rightarrow> pyplot \<Rightarrow> error + pyplot" where
  "create_figure1 total_programs cats vs ss nt sd vd s =
     (let fig = length (figures s);
          s1 = plt_figure s
      in case calculate_interest_career_stats total_programs of
           Inl e \<Rightarrow> Inl e
         | Inr (avg_interest, avg_career) \<Rightarrow>
             Inr (plt_savefig (OUTPUT_DIR @ ''Figure1_Leadership_Gap.pdf'')
                    (fold (ax_draw fig)
                       (figure1_primitives total_programs avg_interest avg_career
                          cats vs ss nt sd vd) s1)))"

subsection \<open>Figure 2: the dumbbell plot\<close>

definition interventions :: "string list" where
  "interventions = [''Education of residents/faculty'', ''Antibiotic Approval'',
                    ''Guideline Creation'', ''Audit and Feedback'', ''Handshake Rounds'',
                    ''Antibiotic Allergy Assessment'', ''Antibiotic Timeout'',
                    ''None of the above'']"

definition with_curriculum :: "real list" where
  "with_curriculum = [76.47, 70.59, 58.82, 58.82, 52.94, 35.29, 17.65, 5.88]"

definition without_curriculum :: "real list" where
  "without_curriculum = [50, 60, 60, 50, 50, 30, 0, 10]"

text \<open>
  The sort by gap size: \<^verbatim>\<open>gaps = np.abs(with - without)\<close>,
  \<^verbatim>\<open>sorted_indices = np.argsort(gaps)[::-1]\<close>, and the four arrays reordered by it.
\<close>

definition gaps :: "real list \<Rightarrow> real list \<Rightarrow> real list" where
  "gaps w wo = np_abs (np_sub w wo)"

definition sorted_indices :: "real list \<Rightarrow> real list \<Rightarrow> nat list" where
  "sorted_indices w wo = rev (np_argsort (gaps w wo))"

definition interventions_sorted :: "string list \<Rightarrow> real list \<Rightarrow> real list \<Rightarrow> string list" where
  "interventions_sorted names w wo = np_take names (sorted_indices w wo)"

definition with_sorted :: "real list \<Rightarrow> real list \<Rightarrow> real list" where
  "with_sorted w wo = np_take w (sorted_indices w wo)"

definition without_sorted :: "real list \<Rightarrow> real list \<Rightarrow> real list" where
  "without_sorted w wo = np_take wo (sorted_indices w wo)"

definition gaps_sorted :: "real list \<Rightarrow> real list \<Rightarrow> real list" where
  "gaps_sorted w wo = np_take (gaps w wo) (sorted_indices w wo)"

text \<open>
  The same lines 281 to 286 for any result \<open>idx\<close> that \<^verbatim>\<open>np.argsort(gaps)\<close> may give:
  the reversal \<^verbatim>\<open>[::-1]\<close> and the four reordered arrays.
\<close>

definition sort_by_gap ::
  "nat list \<Rightarrow> string list \<Rightarrow> real list \<Rightarrow> real list
     \<Rightarrow> string list \<times> real list \<times> real list \<times> real list" where
  "sort_by_gap idx names w wo =
     (let sorted_idx = rev idx
      in (np_take names sorted_idx, np_take w sorted_idx, np_take wo sorted_idx,
          np_take (gaps w wo) sorted_idx))"

text \<open>
  The body of the plotting loop at position \<open>i\<close>: the connecting line and the two dots. The
  body of the annotation loop: the gap label.
\<close>

definition dumbbell_at :: "real list \<Rightarrow> real list \<Rightarrow> nat \<Rightarrow> primitive list" where
  "dumbbell_at w wo i =
     [Plot [without_sorted w wo ! i, with_sorted w wo ! i] [real i, real i] COLOR_GRAY,
      Plot [with_sorted w wo ! i] [real i] COLOR_POSITIVE,
      Plot [without_sorted w wo ! i] [real i] COLOR_NEGATIVE]"

definition gap_annotation_at :: "real list \<Rightarrow> real list \<Rightarrow> nat \<Rightarrow> primitive" where
  "gap_annotation_at w wo i =
     (let gap = gaps_sorted w wo ! i;
          mid_point = (with_sorted w wo ! i + without_sorted w wo ! i) / 2
      in Text mid_point (real i + 0.35) gap 1)"

definition dumbbells :: "string list \<Rightarrow> real list \<Rightarrow> real list \<Rightarrow> primitive list" where
  "dumbbells names w wo =
     concat (map (dumbbell_at w wo) [0..<length (interventions_sorted names w wo)])"

definition gap_annotations :: "string list \<Rightarrow> real list \<Rightarrow> real list \<Rightarrow> primitive list" where
  "gap_annotations names w wo =
     map (gap_annotation_at w wo) [0..<length (interventions_sorted names w wo)]"

definition figure2_primitives :: "string list \<Rightarrow> real list \<Rightarrow> real list \<Rightarrow> primitive list" where
  "figure2_primitives names w wo =
     dumbbells names w wo @ [YTickLabels (interventions_sorted names w wo)]
       @ gap_annotations names w wo"

definition create_figure2 :: "string list \<Rightarrow> real list \<Rightarrow> real list \<Rightarrow> pyplot \<Rightarrow> pyplot" where
  "create_figure2 names w wo s =
     (let fig = length (figures s);
          s1 = plt_figure s
      in plt_savefig (OUTPUT_DIR @ ''Figure2_ASP_Interventions_Dumbbell.pdf'')
           (fold (ax_draw fig) (figure2_primitives names w wo) s1))"

subsection \<open>Figure 3: the barriers, in blue and in red\<close>

definition barriers :: "string list" where
  "barriers = [''Lack of educator time'', ''Lack of materials'', ''None of the above'',
               ''Lack of AS projects'', ''Lack of time from fellow'',
               ''Lack of AS interventions'']"

definition percentages :: "real list" where
  "percentages = [44.44, 33.33, 22.22, 14.81, 18.52, 7.41]"

text \<open>
  \<^verbatim>\<open>bar.get_y()\<close> of a horizontal bar drawn at \<open>y\<close> with the default centre alignment is
  its lower edge.
\<close>

definition bar_get_y :: "primitive \<Rightarrow> nat \<Rightarrow> real" where
  "bar_get_y b i = bar_y b ! i - bar_height b / 2"

definition figure3_primitives :: "string list \<Rightarrow> real list \<Rightarrow> primitive list" where
  "figure3_primitives names pcts =
     (let sorted_idx = np_argsort pcts;
          barriers_sorted = np_take names sorted_idx;
          percentages_sorted = np_take pcts sorted_idx;
          y_pos = np_arange (length barriers_sorted);
          bars = Barh y_pos percentages_sorted 0.7 (replicate (length y_pos) 0) COLOR_POSITIVE
      in [bars, YTickLabels barriers_sorted]
       @ map (\<lambda>i. let pct = percentages_sorted ! i;
                       width = bar_width bars ! i
                   in Text (width + 1.5) (bar_get_y bars i + bar_height bars / 2) pct 1)
             [0..<length percentages_sorted])"

definition create_figure3 :: "string list \<Rightarrow> real list \<Rightarrow> pyplot \<Rightarrow> pyplot" where
  "create_figure3 names pcts s =
     (let fig = length (figures s);
          s1 = plt_figure s
      in plt_savefig (OUTPUT_DIR @ ''Figure3_Barriers.pdf'')
           (fold (ax_draw fig) (figure3_primitives names pcts) s1))"

definition figure3_red_primitives :: "string list \<Rightarrow> real list \<Rightarrow> primitive list" where
  "figure3_red_primitives names pcts =
     (let sorted_idx = np_argsort pcts;
          barriers_sorted = np_take names sorted_idx;
          percentages_sorted = np_take pcts sorted_idx;
          y_pos = np_arange (length barriers_sorted);
          bars = Barh y_pos percentages_sorted 0.7 (replicate (length y_pos) 0) COLOR_NEGATIVE
      in [bars, YTickLabels barriers_sorted]
       @ map (\<lambda>i. let pct = percentages_sorted ! i;
                       width = bar_width bars ! i
                   in Text (width + 1.5) (bar_get_y bars i + bar_height bars / 2) pct 1)
             [0..<length percentages_sorted])"

definition create_figure3_red :: "string list \<Rightarrow> real list \<Rightarrow> pyplot \<Rightarrow> pyplot" where
  "create_figure3_red names pcts s =
     (let fig = length (figures s);
          s1 = plt_figure s
      in plt_savefig (OUTPUT_DIR @ ''Figure3_Barriers_Red.pdf'')
           (fold (ax_draw fig) (figure3_red_primitives names pcts) s1))"

section \<open>The weighted average\<close>

lemma weighted_sum_nth:
  "sum_list (map (\<lambda>(m, c). m * real_of_int c) (zip ms cs)) =
     (\<Sum>i<min (length ms) (length cs). real_of_int (cs ! i) * ms ! i)"
proof -
  have "sum_list (map (\<lambda>(m, c). m * real_of_int c) (zip ms cs)) =
          (\<Sum>i = 0..<length (zip ms cs). map (\<lambda>(m, c). m * real_of_int c) (zip ms cs) ! i)"
    by (simp add: sum_list_sum_nth)
  also have "\<dots> = (\<Sum>i = 0..<min (length ms) (length cs). real_of_int (cs ! i) * ms ! i)"
    by (rule sum.cong) (simp_all add: mult.commute)
  finally show ?thesis by (simp add: atLeast0LessThan)
qed

text \<open>
  C4. For counts and midpoints of equal length and a positive sample size, the weighted
  average returns exactly the sum of \<open>counts[i] * midpoints[i]\<close> divided by the sample
  size. With the midpoints \<open>(12.5, 37.5, 62.5, 87.5)\<close>, the interest counts
  \<open>(11, 10, 5, 1)\<close> and sample size 27 it returns
  \<open>(11 * 12.5 + 10 * 37.5 + 5 * 62.5 + 1 * 87.5) / 27\<close>.
\<close>

theorem weighted_midpoint_average_sum:
  assumes "length counts = length ms" and "0 < sample_size"
  shows "weighted_midpoint_average ms counts sample_size =
           Inr ((\<Sum>i<length counts. real_of_int (counts ! i) * ms ! i) / real_of_int sample_size)"
  using assms by (simp add: weighted_midpoint_average_def py_truediv_def weighted_sum_nth)

theorem weighted_midpoint_average_sum_witness:
  "length [11, 10, 5, 1 :: int] = length [12.5, 37.5, 62.5, 87.5 :: real] \<and> (0::int) < 27 \<and>
   weighted_midpoint_average [12.5, 37.5, 62.5, 87.5] [11, 10, 5, 1] 27 =
     Inr ((11 * 12.5 + 10 * 37.5 + 5 * 62.5 + 1 * 87.5) / 27)"
  using weighted_midpoint_average_sum [of "[11, 10, 5, 1]" "[12.5, 37.5, 62.5, 87.5]" 27]
  by (simp add: lessThan_Suc numeral_eq_Suc)

text \<open>
  C5, as the specification states it: when the two lists differ in length the weighted
  average fails with an invalid-input error. The source has no such check: with three
  counts against four midpoints it returns a number.
\<close>

theorem weighted_midpoint_average_mismatch_counterexample:
  "length [11, 10, 5 :: int] \<noteq> length [12.5, 37.5, 62.5, 87.5 :: real] \<and>
   weighted_midpoint_average [12.5, 37.5, 62.5, 87.5] [11, 10, 5] 27 = Inr (275 / 9)"
  by (simp add: weighted_midpoint_average_def py_truediv_def)

text \<open>
  C5, amended: when the two lists differ in length and the sample size is not zero, the
  weighted average does not fail; it pairs the lists up to the end of the shorter one and
  returns the sum over that truncated pairing divided by the sample size.
\<close>

theorem weighted_midpoint_average_truncates:
  assumes "length counts \<noteq> length ms" and "sample_size \<noteq> 0"
  shows "weighted_midpoint_average ms counts sample_size =
           Inr ((\<Sum>i<min (length ms) (length counts). real_of_int (counts ! i) * ms ! i)
                  / real_of_int sample_size)"
  using assms by (simp add: weighted_midpoint_average_def py_truediv_def weighted_sum_nth)

theorem weighted_midpoint_average_truncates_witness:
  "length [11, 10, 5 :: int] \<noteq> length [12.5, 37.5, 62.5, 87.5 :: real] \<and> (27::int) \<noteq> 0 \<and>
   weighted_midpoint_average [12.5, 37.5, 62.5, 87.5] [11, 10, 5] 27 =
     Inr ((11 * 12.5 + 10 * 37.5 + 5 * 62.5) / 27)"
  using weighted_midpoint_average_truncates [of "[11, 10, 5]" "[12.5, 37.5, 62.5, 87.5]" 27]
  by (simp add: lessThan_Suc numeral_eq_Suc)

section \<open>A zero denominator\<close>

lemma calculate_interest_career_stats_zero:
  "calculate_interest_career_stats 0 = Inl ZeroDivisionError"
  by (simp add: calculate_interest_career_stats_def weighted_midpoint_average_def
        py_truediv_def)

lemma calculate_interest_career_stats_returns:
  "n \<noteq> 0 \<Longrightarrow> \<exists>avg_interest avg_career.
     calculate_interest_career_stats n = Inr (avg_interest, avg_career)"
  by (simp add: calculate_interest_career_stats_def weighted_midpoint_average_def
        py_truediv_def)

lemma create_figure1_returns_iff:
  "(\<exists>t. create_figure1 n cats vs ss nt sd vd s = Inr t) \<longleftrightarrow> n \<noteq> 0"
proof (cases "n = 0")
  case True
  then show ?thesis
    by (simp add: create_figure1_def Let_def calculate_interest_career_stats_zero)
next
  case False
  then obtain a b where "calculate_interest_career_stats n = Inr (a, b)"
    using calculate_interest_career_stats_returns by blast
  then show ?thesis
    using False by (simp add: create_figure1_def Let_def)
qed


section \<open>Figure 1: the diverging layout\<close>

text \<open>
  C1. For every category \<open>i\<close> with percentages \<open>very_neg\<close>, \<open>somewhat_neg\<close>, \<open>neutral\<close>,
  \<open>somewhat_pos\<close>, \<open>very_pos\<close> and \<open>neutral_half = neutral / 2\<close>, the layout draws five
  bars in row \<open>i\<close>: very negative with start \<open>- (neutral_half + very_neg + somewhat_neg)\<close>
  and width \<open>very_neg\<close>, somewhat negative with start that start plus \<open>very_neg\<close> and width
  \<open>somewhat_neg\<close>, neutral with start \<open>- neutral_half\<close> and width \<open>neutral\<close>, somewhat
  positive with start \<open>neutral_half\<close> and width \<open>somewhat_pos\<close>, very positive with start
  \<open>neutral_half + somewhat_pos\<close> and width \<open>very_pos\<close>. For the input
  \<open>(3.70, 7.41, 29.63, 51.85, 33.33)\<close> the very negative bar starts within \<open>0.01\<close> of
  \<open>-25.93\<close> with width \<open>3.70\<close> and the somewhat positive bar starts at \<open>14.815\<close> with
  width \<open>51.85\<close>.
\<close>

theorem mode_a_geometry:
  assumes "i < length cats"
    and "length vs = length cats" and "length ss = length cats" and "length nt = length cats"
    and "length sd = length cats" and "length vd = length cats"
  shows "(let bars = satisfaction_bars cats vs ss nt sd vd;
              neutral_half = nt ! i / 2;
              very_neg = vd ! i; somewhat_neg = sd ! i; neutral = nt ! i;
              somewhat_pos = ss ! i; very_pos = vs ! i
          in length bars = 5 \<and>
             bar_left (bars ! 0) ! i = - (neutral_half + very_neg + somewhat_neg) \<and>
             bar_width (bars ! 0) ! i = very_neg \<and>
             bar_left (bars ! 1) ! i = bar_left (bars ! 0) ! i + very_neg \<and>
             bar_width (bars ! 1) ! i = somewhat_neg \<and>
             bar_left (bars ! 2) ! i = - neutral_half \<and>
             bar_width (bars ! 2) ! i = neutral \<and>
             bar_left (bars ! 3) ! i = neutral_half \<and>
             bar_width (bars ! 3) ! i = somewhat_pos \<and>
             bar_left (bars ! 4) ! i = neutral_half + somewhat_pos \<and>
             bar_width (bars ! 4) ! i = very_pos \<and>
             map (\<lambda>b. bar_y b ! i) bars = replicate 5 (real i))"
  using assms
  by (simp add: satisfaction_bars_def Let_def np_add_def np_neg_def np_div_scalar_def
        np_arange_def numeral_eq_Suc)

theorem mode_a_geometry_witness:
  "(0::nat) < length [''c''] \<and>
   (let bars = satisfaction_bars [''c''] [33.33] [51.85] [29.63] [7.41] [3.70]
    in \<bar>bar_left (bars ! 0) ! 0 - (- 25.93)\<bar> \<le> 1 / 100 \<and> bar_width (bars ! 0) ! 0 = 3.70 \<and>
       bar_left (bars ! 3) ! 0 = 14.815 \<and> bar_width (bars ! 3) ! 0 = 51.85)"
  using mode_a_geometry [of 0 "[''c'']" "[33.33]" "[51.85]" "[29.63]" "[7.41]" "[3.70]"]
  by (simp add: Let_def)

lemma concat_map_only:
  "i < n \<Longrightarrow> concat (map (\<lambda>j. if j = i then f j else []) [0..<n]) = f i"
proof (induction n)
  case 0
  then show ?case by simp
next
  case (Suc n)
  show ?case
  proof (cases "i = n")
    case True
    have "concat (map (\<lambda>j. if j = i then f j else []) [0..<n]) = []"
      using True by (simp add: concat_eq_Nil_conv)
    then show ?thesis using True by simp
  next
    case False
    then have "i < n" using Suc.prems by simp
    then show ?thesis using Suc.IH False by simp
  qed
qed

lemma percentage_labels_at_row:
  "filter (\<lambda>p. text_y p = real i) (percentage_labels_at vs ss nt sd vd j) =
     (if j = i then percentage_labels_at vs ss nt sd vd j else [])"
  by (simp add: percentage_labels_at_def Let_def)

lemma percentage_labels_row:
  assumes "i < length cats"
  shows "filter (\<lambda>p. text_y p = real i) (percentage_labels cats vs ss nt sd vd) =
           percentage_labels_at vs ss nt sd vd i"
  using assms
  by (simp add: percentage_labels_def filter_concat comp_def percentage_labels_at_row
        concat_map_only)

text \<open>
  C3. For every category \<open>i\<close>, the labels drawn in row \<open>i\<close> are, in this order: the
  combined dissatisfied total if and only if it is strictly greater than 5, the neutral
  percentage if and only if it is strictly greater than 5, and the combined satisfied total
  if and only if it is strictly greater than 5; each label sits at the midpoint of the span
  of the bars it stands for. A width of exactly 5 gets no label, a width of 5.01 gets one.
\<close>

theorem mode_a_labels:
  assumes "i < length cats"
    and "length vs = length cats" and "length ss = length cats" and "length nt = length cats"
    and "length sd = length cats" and "length vd = length cats"
  shows "(let bars = satisfaction_bars cats vs ss nt sd vd;
              dissatisfied_lo = bar_left (bars ! 0) ! i;
              dissatisfied_hi = bar_left (bars ! 1) ! i + bar_width (bars ! 1) ! i;
              neutral_lo = bar_left (bars ! 2) ! i;
              neutral_hi = bar_left (bars ! 2) ! i + bar_width (bars ! 2) ! i;
              satisfied_lo = bar_left (bars ! 3) ! i;
              satisfied_hi = bar_left (bars ! 4) ! i + bar_width (bars ! 4) ! i;
              dissatisfied_total = sd ! i + vd ! i;
              satisfied_total = ss ! i + vs ! i
          in filter (\<lambda>p. text_y p = real i) (percentage_labels cats vs ss nt sd vd) =
               (if 5 < dissatisfied_total
                then [Text ((dissatisfied_lo + dissatisfied_hi) / 2) (real i) dissatisfied_total 0]
                else [])
             @ (if 5 < nt ! i
                then [Text ((neutral_lo + neutral_hi) / 2) (real i) (nt ! i) 0] else [])
             @ (if 5 < satisfied_total
                then [Text ((satisfied_lo + satisfied_hi) / 2) (real i) satisfied_total 0]
                else []))"
  using assms
  by (simp add: percentage_labels_row percentage_labels_at_def satisfaction_bars_def Let_def
        np_add_def np_neg_def np_div_scalar_def np_arange_def numeral_eq_Suc field_simps)

theorem mode_a_labels_witness:
  "(0::nat) < length [''c''] \<and> [2 :: real] ! 0 + [3] ! 0 = 5 \<and>
   filter (\<lambda>p. text_y p = real 0) (percentage_labels [''c''] [9.99] [80] [5.01] [2] [3]) =
     [Text 0 0 5.01 0, Text 47.5 0 89.99 0]"
  using mode_a_labels [of 0 "[''c'']" "[9.99]" "[80]" "[5.01]" "[2]" "[3]"]
  by (simp add: percentage_labels_def percentage_labels_at_def Let_def)

section \<open>Figure 2: order, dumbbells and gap labels\<close>

lemma length_gaps: "length w = length wo \<Longrightarrow> length (gaps w wo) = length w"
  by (simp add: gaps_def np_abs_def np_sub_def)

lemma gaps_nth:
  "length w = length wo \<Longrightarrow> i < length w \<Longrightarrow> gaps w wo ! i = \<bar>w ! i - wo ! i\<bar>"
  by (simp add: gaps_def np_abs_def np_sub_def)

lemma mset_np_argsort: "mset (np_argsort a) = mset [0..<length a]"
  by (simp add: np_argsort_def)

lemma set_sorted_indices:
  "length w = length wo \<Longrightarrow> set (sorted_indices w wo) = {0..<length w}"
  by (simp add: sorted_indices_def np_argsort_def length_gaps)

lemma length_sorted_indices:
  "length w = length wo \<Longrightarrow> length (sorted_indices w wo) = length w"
  by (simp add: sorted_indices_def np_argsort_def length_gaps)

lemma sorted_indices_nth_less:
  assumes "length w = length wo" and "i < length w"
  shows "sorted_indices w wo ! i < length w"
proof -
  have "sorted_indices w wo ! i \<in> set (sorted_indices w wo)"
    using assms by (simp add: length_sorted_indices)
  then show ?thesis using assms by (simp add: set_sorted_indices)
qed

lemma zip_map3:
  "zip (map f xs) (zip (map g xs) (map h xs)) = map (\<lambda>x. (f x, g x, h x)) xs"
  by (induction xs) simp_all

lemma map2_map_map:
  "map2 f (map g xs) (map h xs) = map (\<lambda>x. f (g x) (h x)) xs"
  by (induction xs) simp_all

lemma rows_nth:
  assumes "length names = length w" and "length w = length wo"
  shows "map (\<lambda>i. (names ! i, w ! i, wo ! i)) [0..<length w] = zip names (zip w wo)"
  using assms by (intro nth_equalityI) simp_all

lemma is_argsort_mset: "is_argsort a idx \<Longrightarrow> mset idx = mset [0..<length a]"
  by (metis is_argsort_def mset_sort)

lemma is_argsort_set: "is_argsort a idx \<Longrightarrow> set idx = {0..<length a}"
  by (metis is_argsort_mset set_mset_mset set_upt)

lemma np_argsort_is_argsort: "is_argsort a (np_argsort a)"
proof -
  have "sort (sort_key (\<lambda>i. a ! i) [0..<length a]) = [0..<length a]"
    by (metis mset_sort sort_upt properties_for_sort sorted_sort)
  moreover have "sorted (map (\<lambda>i. a ! i) (sort_key (\<lambda>i. a ! i) [0..<length a]))"
    by (rule sorted_sort_key)
  ultimately show ?thesis
    by (simp add: is_argsort_def np_argsort_def np_take_def)
qed

lemma sort_by_gap_np_argsort:
  "sort_by_gap (np_argsort (gaps w wo)) names w wo =
     (interventions_sorted names w wo, with_sorted w wo, without_sorted w wo, gaps_sorted w wo)"
  by (simp add: sort_by_gap_def Let_def interventions_sorted_def with_sorted_def
        without_sorted_def gaps_sorted_def sorted_indices_def)

text \<open>
  C7, amended: the dumbbell layout orders the categories by descending gap
  \<open>\<bar>p_with - p_without\<bar>\<close>. Whatever ascending index order \<^verbatim>\<open>np.argsort\<close> returns for
  the gaps, the gaps of the rows descend, each row keeps its own name, pair of percentages
  and gap, and the rows are a rearrangement of the input rows. Gaps \<open>[3, 10, 1]\<close> give the
  order \<open>[10, 3, 1]\<close>. The order among categories with equal gaps is the reverse of the
  order \<^verbatim>\<open>np.argsort\<close> leaves them in, which numpy does not fix: it need not be the input
  order.
\<close>

theorem mode_b_descending:
  assumes "length names = length w" and "length w = length wo"
    and "is_argsort (gaps w wo) idx"
  shows "(case sort_by_gap idx names w wo of
            (names_sorted, w_sorted, wo_sorted, g_sorted) \<Rightarrow>
              sorted_wrt (\<lambda>x y. y \<le> x) g_sorted \<and>
              g_sorted = map2 (\<lambda>a b. \<bar>a - b\<bar>) w_sorted wo_sorted \<and>
              mset (zip names_sorted (zip w_sorted wo_sorted)) = mset (zip names (zip w wo)))"
proof -
  let ?si = "rev idx"
  let ?f = "\<lambda>i. (names ! i, w ! i, wo ! i)"
  have n: "length (gaps w wo) = length w"
    using assms by (simp add: length_gaps)
  have "sorted (np_take (gaps w wo) idx)"
    using assms(3) by (simp add: is_argsort_def)
  then have 1: "sorted_wrt (\<lambda>x y. y \<le> x) (np_take (gaps w wo) ?si)"
    by (simp add: np_take_def sorted_wrt_rev flip: rev_map)
  have 2: "np_take (gaps w wo) ?si = map2 (\<lambda>a b. \<bar>a - b\<bar>) (np_take w ?si) (np_take wo ?si)"
  proof -
    have "gaps w wo ! i = \<bar>w ! i - wo ! i\<bar>" if "i \<in> set idx" for i
      using that is_argsort_set [OF assms(3)] assms(2) by (simp add: n gaps_nth)
    then have "map (\<lambda>i. gaps w wo ! i) ?si = map (\<lambda>i. \<bar>w ! i - wo ! i\<bar>) ?si"
      by simp
    also have "\<dots> = map2 (\<lambda>a b. \<bar>a - b\<bar>) (map (\<lambda>i. w ! i) ?si) (map (\<lambda>i. wo ! i) ?si)"
      by (simp only: map2_map_map)
    finally show ?thesis by (simp add: np_take_def)
  qed
  have "mset ?si = mset [0..<length w]"
    using is_argsort_mset [OF assms(3)] by (simp add: n)
  then have "mset (map ?f ?si) = mset (map ?f [0..<length w])"
    by (simp only: mset_map)
  then have 3: "mset (zip (np_take names ?si) (zip (np_take w ?si) (np_take wo ?si))) =
                  mset (zip names (zip w wo))"
    by (simp only: np_take_def zip_map3 rows_nth [OF assms(1,2)])
  show ?thesis
    using 1 2 3 by (simp add: sort_by_gap_def Let_def)
qed

theorem mode_b_descending_witness:
  "length [''a'', ''b'', ''c''] = length [3, 10, 1 :: real] \<and>
   length [3, 10, 1 :: real] = length [0, 0, 0 :: real] \<and>
   gaps [3, 10, 1] [0, 0, 0] = [3, 10, 1] \<and>
   is_argsort (gaps [3, 10, 1] [0, 0, 0]) [2, 0, 1] \<and>
   sort_by_gap [2, 0, 1] [''a'', ''b'', ''c''] [3, 10, 1] [0, 0, 0] =
     ([''b'', ''a'', ''c''], [10, 3, 1], [0, 0, 0], [10, 3, 1]) \<and>
   sorted_wrt (\<lambda>x y. y \<le> x) [10, 3, 1 :: real]"
proof -
  have a: "length [''a'', ''b'', ''c''] = length [3, 10, 1 :: real]" by simp
  have b: "length [3, 10, 1 :: real] = length [0, 0, 0 :: real]" by simp
  have d: "gaps [3, 10, 1] [0, 0, 0] = [3, 10, 1]"
    by (simp add: gaps_def np_abs_def np_sub_def)
  have c: "is_argsort (gaps [3, 10, 1] [0, 0, 0]) [2, 0, 1]"
    by (simp add: d is_argsort_def np_take_def upt_rec)
  have e: "sort_by_gap [2, 0, 1] [''a'', ''b'', ''c''] [3, 10, 1] [0, 0, 0] =
     ([''b'', ''a'', ''c''], [10, 3, 1], [0, 0, 0], [10, 3, 1])"
    by (simp add: sort_by_gap_def Let_def np_take_def d)
  have "sorted_wrt (\<lambda>x y. y \<le> x) [10, 3, 1 :: real]"
    using mode_b_descending [OF a b c] by (simp add: e)
  then show ?thesis using a b c d e by blast
qed

text \<open>
  C7, as the specification states it: categories with equal gaps keep their input order.
  For two categories with the same gap both index orders are ascending, and from the one
  that lists them in input order the layout puts the second category first.
\<close>

theorem mode_b_ties_counterexample:
  "gaps [10, 20] [0, 10] = [10, 10] \<and>
   is_argsort [10, 10] [0, 1] \<and> is_argsort [10, 10] [1, 0] \<and>
   fst (sort_by_gap [0, 1] [''first'', ''second''] [10, 20] [0, 10]) = [''second'', ''first'']"
  by (simp add: sort_by_gap_def Let_def np_take_def gaps_def np_abs_def np_sub_def
        is_argsort_def upt_rec)

lemma length_concat_chunks:
  "(\<And>j. length (f j) = c) \<Longrightarrow> length (concat (map f [0..<n])) = c * n"
  by (induction n) simp_all

lemma concat_chunk_nth:
  assumes len: "\<And>j. length (f j) = c" and "i < n"
  shows "take c (drop (c * i) (concat (map f [0..<n]))) = f i"
  using \<open>i < n\<close>
proof (induction n)
  case 0
  then show ?case by simp
next
  case (Suc n)
  have l: "length (concat (map f [0..<n])) = c * n"
    using len by (rule length_concat_chunks)
  show ?case
  proof (cases "i = n")
    case True
    then show ?thesis using l len by simp
  next
    case False
    then have i: "i < n" using Suc.prems by simp
    then have "c * Suc i \<le> c * n"
      by (intro mult_le_mono2) simp
    then have "c * i + c \<le> c * n" by simp
    then show ?thesis using Suc.IH [OF i] l len by simp
  qed
qed

lemma length_interventions_sorted:
  "length w = length wo \<Longrightarrow> length (interventions_sorted names w wo) = length w"
  by (simp add: interventions_sorted_def np_take_def length_sorted_indices)

text \<open>
  C8. For every row \<open>i\<close> of the dumbbell layout, whatever the gap: the connecting line
  runs between \<open>p_without\<close> and \<open>p_with\<close> at height \<open>i\<close>, so it spans
  \<open>[min p_with p_without, max p_with p_without]\<close>, with the two dots at its ends; one gap
  label is drawn for every row, at the horizontal midpoint \<open>(p_with + p_without) / 2\<close>,
  at height \<open>i + 0.35\<close> above the row, carrying the gap. With \<open>p_with = 76.47\<close> and
  \<open>p_without = 50\<close> the gap is \<open>26.47\<close> and the connector spans \<open>[50, 76.47]\<close>.
\<close>

theorem mode_b_dumbbell:
  assumes "length names = length w" and "length w = length wo" and "i < length names"
  shows "(let k = sorted_indices w wo ! i;
              p_with = w ! k;
              p_without = wo ! k;
              connector = dumbbells names w wo ! (3 * i)
          in k < length names \<and>
             interventions_sorted names w wo ! i = names ! k \<and>
             take 3 (drop (3 * i) (dumbbells names w wo)) =
               [Plot [p_without, p_with] [real i, real i] COLOR_GRAY,
                Plot [p_with] [real i] COLOR_POSITIVE,
                Plot [p_without] [real i] COLOR_NEGATIVE] \<and>
             connector = Plot [p_without, p_with] [real i, real i] COLOR_GRAY \<and>
             Min (set (plot_x connector)) = min p_with p_without \<and>
             Max (set (plot_x connector)) = max p_with p_without \<and>
             length (gap_annotations names w wo) = length names \<and>
             gap_annotations names w wo ! i =
               Text ((p_with + p_without) / 2) (real i + 0.35) \<bar>p_with - p_without\<bar> 1 \<and>
             real i < real i + 0.35)"
proof -
  let ?k = "sorted_indices w wo ! i"
  have i: "i < length w" using assms by simp
  have k: "?k < length w" by (rule sorted_indices_nth_less [OF assms(2) i])
  have n: "length (interventions_sorted names w wo) = length names"
    using assms by (simp add: length_interventions_sorted)
  have chunk: "take 3 (drop (3 * i) (dumbbells names w wo)) = dumbbell_at w wo i"
    unfolding dumbbells_def n
    by (rule concat_chunk_nth [OF _ assms(3)]) (simp add: dumbbell_at_def)
  have "dumbbells names w wo ! (3 * i) = take 3 (drop (3 * i) (dumbbells names w wo)) ! 0"
  proof -
    have "3 * i + 3 \<le> 3 * length names"
      using assms(3) by simp
    moreover have "length (dumbbells names w wo) = 3 * length names"
      unfolding dumbbells_def n by (rule length_concat_chunks) (simp add: dumbbell_at_def)
    ultimately show ?thesis by simp
  qed
  then have conn: "dumbbells names w wo ! (3 * i) = dumbbell_at w wo i ! 0"
    by (simp only: chunk)
  have ws: "with_sorted w wo ! i = w ! ?k" "without_sorted w wo ! i = wo ! ?k"
    "interventions_sorted names w wo ! i = names ! ?k"
    "gaps_sorted w wo ! i = \<bar>w ! ?k - wo ! ?k\<bar>"
    using assms i k
    by (simp_all add: with_sorted_def without_sorted_def interventions_sorted_def
          gaps_sorted_def np_take_def length_sorted_indices gaps_nth)
  have ann: "gap_annotations names w wo ! i = gap_annotation_at w wo i"
    using assms by (simp add: gap_annotations_def n)
  have "length (gap_annotations names w wo) = length names"
    by (simp add: gap_annotations_def n)
  then show ?thesis
    using k assms chunk conn ann
    by (simp add: Let_def ws dumbbell_at_def gap_annotation_at_def min.commute max.commute)
qed

theorem mode_b_dumbbell_witness:
  "length interventions = length with_curriculum \<and>
   length with_curriculum = length without_curriculum \<and>
   (0::nat) < length interventions \<and>
   interventions_sorted interventions with_curriculum without_curriculum ! 0 =
     ''Education of residents/faculty'' \<and>
   dumbbells interventions with_curriculum without_curriculum ! 0 =
     Plot [50, 76.47] [0, 0] COLOR_GRAY \<and>
   gap_annotations interventions with_curriculum without_curriculum ! 0 =
     Text 63.235 0.35 26.47 1"
proof -
  have a: "length interventions = length with_curriculum"
    by (simp add: interventions_def with_curriculum_def)
  have b: "length with_curriculum = length without_curriculum"
    by (simp add: with_curriculum_def without_curriculum_def)
  have c: "(0::nat) < length interventions"
    by (simp add: interventions_def)
  have k: "sorted_indices with_curriculum without_curriculum = [0, 6, 1, 3, 5, 7, 4, 2]"
    by code_simp
  have d: "interventions ! 0 = ''Education of residents/faculty''"
    "with_curriculum ! 0 = 76.47" "without_curriculum ! 0 = 50"
    by (simp_all add: interventions_def with_curriculum_def without_curriculum_def)
  show ?thesis
    using mode_b_dumbbell [OF a b c] by (simp add: Let_def k a b c d)
qed

section \<open>Rendering into pyplot\<close>

lemma fold_ax_draw:
  "h < length (figures s) \<Longrightarrow>
     fold (ax_draw h) ps s = s\<lparr>figures := (figures s)[h := figures s ! h @ ps]\<rparr>"
proof (induction ps arbitrary: s)
  case Nil
  then show ?case by simp
next
  case (Cons p ps)
  let ?t = "ax_draw h p s"
  have t: "h < length (figures ?t)"
    using Cons.prems by (simp add: ax_draw_def)
  have "fold (ax_draw h) (p # ps) s = fold (ax_draw h) ps ?t"
    by simp
  also have "\<dots> = ?t\<lparr>figures := (figures ?t)[h := figures ?t ! h @ ps]\<rparr>"
    by (rule Cons.IH [OF t])
  also have "\<dots> = s\<lparr>figures := (figures s)[h := figures s ! h @ p # ps]\<rparr>"
    using Cons.prems by (simp add: ax_draw_def)
  finally show ?case .
qed

lemma render_new_figure:
  "plt_savefig path (fold (ax_draw (length (figures s))) ps (plt_figure s)) =
     s\<lparr>figures := figures s @ [ps], files := files s @ [(path, ps)]\<rparr>"
  by (simp add: fold_ax_draw plt_figure_def plt_savefig_def)

lemma np_take_argsort: "np_take a (np_argsort a) = sort a"
proof -
  have "mset (sort_key (\<lambda>i. a ! i) [0..<length a]) = mset [0..<length a]"
    by simp
  then have "mset (map (\<lambda>i. a ! i) (sort_key (\<lambda>i. a ! i) [0..<length a])) =
          mset (map (\<lambda>i. a ! i) [0..<length a])"
    by (simp only: mset_map)
  then have "mset (np_take a (np_argsort a)) = mset a"
    by (simp only: np_take_def np_argsort_def map_nth)
  moreover have "sorted (np_take a (np_argsort a))"
    unfolding np_take_def np_argsort_def by (rule sorted_sort_key)
  ultimately show ?thesis
    by (simp add: properties_for_sort)
qed

lemma length_np_argsort: "length (np_argsort a) = length a"
  by (simp add: np_argsort_def)

lemma create_figure3_state:
  "create_figure3 names pcts s =
     s\<lparr>figures := figures s @ [figure3_primitives names pcts],
       files := files s @ [(OUTPUT_DIR @ ''Figure3_Barriers.pdf'', figure3_primitives names pcts)]\<rparr>"
  by (simp add: create_figure3_def Let_def render_new_figure)

lemma create_figure3_red_state:
  "create_figure3_red names pcts s =
     s\<lparr>figures := figures s @ [figure3_red_primitives names pcts],
       files := files s @ [(OUTPUT_DIR @ ''Figure3_Barriers_Red.pdf'',
                  figure3_red_primitives names pcts)]\<rparr>"
  by (simp add: create_figure3_red_def Let_def render_new_figure)

text \<open>
  C10. \<^verbatim>\<open>create_figure3\<close> and \<^verbatim>\<open>create_figure3_red\<close> draw the same chart: the same
  barrier labels, the percentages in ascending order (the bar at height \<open>i\<close> carries the
  \<open>i\<close>-th smallest percentage), the same bar positions and widths and the same value
  labels. They differ only in the colour of the bars, \<^verbatim>\<open>COLOR_POSITIVE\<close> against
  \<^verbatim>\<open>COLOR_NEGATIVE\<close>, and in the name of the file.
\<close>

theorem barrier_charts_agree:
  assumes "length names = length pcts"
  shows "(let n = length names;
              geometry = (\<lambda>colour.
                [Barh (np_arange n) (sort pcts) 0.7 (replicate n 0) colour,
                 YTickLabels (np_take names (np_argsort pcts))]
                @ map (\<lambda>i. Text (sort pcts ! i + 1.5) (real i) (sort pcts ! i) 1) [0..<n])
          in figure3_primitives names pcts = geometry COLOR_POSITIVE \<and>
             figure3_red_primitives names pcts = geometry COLOR_NEGATIVE \<and>
             tl (figure3_primitives names pcts) = tl (figure3_red_primitives names pcts) \<and>
             COLOR_POSITIVE \<noteq> COLOR_NEGATIVE \<and>
             last (files (create_figure3 names pcts s)) =
               (OUTPUT_DIR @ ''Figure3_Barriers.pdf'', geometry COLOR_POSITIVE) \<and>
             last (files (create_figure3_red names pcts s)) =
               (OUTPUT_DIR @ ''Figure3_Barriers_Red.pdf'', geometry COLOR_NEGATIVE))"
proof -
  have blue: "figure3_primitives names pcts =
     [Barh (np_arange (length names)) (sort pcts) 0.7 (replicate (length names) 0) COLOR_POSITIVE,
      YTickLabels (np_take names (np_argsort pcts))]
     @ map (\<lambda>i. Text (sort pcts ! i + 1.5) (real i) (sort pcts ! i) 1) [0..<length names]"
    using assms
    by (simp add: figure3_primitives_def Let_def np_take_argsort bar_get_y_def np_arange_def
          length_np_argsort np_take_def [of names])
  have red: "figure3_red_primitives names pcts =
     [Barh (np_arange (length names)) (sort pcts) 0.7 (replicate (length names) 0) COLOR_NEGATIVE,
      YTickLabels (np_take names (np_argsort pcts))]
     @ map (\<lambda>i. Text (sort pcts ! i + 1.5) (real i) (sort pcts ! i) 1) [0..<length names]"
    using assms
    by (simp add: figure3_red_primitives_def Let_def np_take_argsort bar_get_y_def np_arange_def
          length_np_argsort np_take_def [of names])
  show ?thesis
    by (simp add: Let_def create_figure3_state create_figure3_red_state)
       (simp add: blue red COLOR_POSITIVE_def COLOR_NEGATIVE_def)
qed

theorem barrier_charts_agree_witness:
  "length barriers = length percentages \<and>
   bar_width (figure3_primitives barriers percentages ! 0) =
     [7.41, 14.81, 18.52, 22.22, 33.33, 44.44] \<and>
   bar_width (figure3_red_primitives barriers percentages ! 0) =
     [7.41, 14.81, 18.52, 22.22, 33.33, 44.44] \<and>
   tl (figure3_primitives barriers percentages) = tl (figure3_red_primitives barriers percentages)"
proof -
  have a: "length barriers = length percentages"
    by (simp add: barriers_def percentages_def)
  have b: "sort percentages = [7.41, 14.81, 18.52, 22.22, 33.33, 44.44]"
    by (simp add: percentages_def)
  show ?thesis
    using barrier_charts_agree [OF a] by (simp add: Let_def a b)
qed

end
